theory Spec2Isabelle
  imports Main "HOL-Library.Word"
begin

section \<open>The location wishlist backend (backend/src/index.js)\<close>

text \<open>
  The resolvers of \<^verbatim>\<open>backend/src/index.js\<close> are embedded as functions on an explicit
  server state: the two tables of the relational store, the objects of the bucket, the
  write streams that are still open and the lines written by \<^verbatim>\<open>console.error\<close>.
  A resolver takes the state and its GraphQL arguments and returns what it resolves to
  (or what it throws) together with the new state. Requests are run one after the
  other; the interleaving of the awaits of two requests is not part of the model.
\<close>

subsection \<open>Data model\<close>

text \<open>
  The GraphQL types \<^verbatim>\<open>Location\<close> and \<^verbatim>\<open>Suggestion\<close> of the schema. The timestamps
  \<^verbatim>\<open>createdAt\<close> and \<^verbatim>\<open>updatedAt\<close> are maintained by the model layer and read by no
  resolver; they are left out. The foreign key \<^verbatim>\<open>LocationId\<close> is the column the
  resolvers name in \<^verbatim>\<open>addIdea\<close>. The stored \<^verbatim>\<open>votes\<close> are an integer: the column
  type is declared in \<^verbatim>\<open>./models\<close>, which is not among the sources, and the resolvers
  set no bound. The arithmetic on them is JavaScript's, see \<open>increment\<close> below.
\<close>

text \<open>
  A JavaScript string is a sequence of UTF-16 code units. The literals of the source are
  ASCII; \<open>ascii\<close> turns such a literal into its code units.
\<close>

type_synonym jstring = "16 word list"

definition ascii :: "string \<Rightarrow> jstring" where
  "ascii s = map of_char s"

record location =
  id_loc :: jstring
  address :: jstring
  imageURL :: "jstring option"
  approved :: bool

record suggestion =
  idea :: jstring
  votes :: int
  LocationId :: jstring

text \<open>
  What a resolver throws or logs: the bare strings of the \<^verbatim>\<open>throw\<close> statements, the
  errors the JavaScript runtime raises, and the error an object-store stream reports.
  The messages are fixed ASCII texts and are kept as such.
\<close>

datatype js_error =
  Thrown string
  | TypeError string
  | ReferenceError string
  | StreamError string

text \<open>
  A write stream opened by \<^verbatim>\<open>addLocation\<close>: its two callbacks close over the
  \<^verbatim>\<open>location\<close> instance (its identifier) and the bucket file (its name).
\<close>

record upload =
  instance_id :: jstring
  file_name :: jstring

record server =
  Locations :: "location list"
  Suggestions :: "suggestion list"
  objects :: "jstring list"
  streams :: "upload list"
  console :: "js_error list"

text \<open>The uploaded file as \<^verbatim>\<open>await args.photo\<close> yields it.\<close>

record photo =
  filename :: jstring
  mimetype :: jstring
  content :: "8 word list"

text \<open>
  Modelled from the spec: the rule of the storage layer for the Suggestions of a
  destroyed Location (the model declarations of \<^verbatim>\<open>./models\<close> are not among the
  sources). The Suggestions are either left in place, orphaned, or removed with the
  Location.
\<close>

datatype on_delete = NoAction | Cascade

definition gcpBucketName :: jstring where
  "gcpBucketName = (ascii ''astoriatech-wishlist-images'')"

subsection \<open>Strings\<close>

text \<open>
  \<^verbatim>\<open>String.prototype.trim\<close> removes white space and line terminators at both ends.
  These are the code units that ECMAScript names: tab, line feed, vertical tab, form
  feed, carriage return, space, no-break space, the other space separators of Unicode
  (U+1680, U+2000 to U+200A, U+202F, U+205F, U+3000), the line and paragraph separators
  (U+2028, U+2029) and the byte order mark (U+FEFF).
\<close>

definition white_space :: "16 word \<Rightarrow> bool" where
  "white_space c =
     (c = 0x09 \<or> c = 0x0A \<or> c = 0x0B \<or> c = 0x0C \<or> c = 0x0D \<or> c = 0x20 \<or> c = 0xA0
      \<or> c = 0x1680 \<or> (0x2000 \<le> c \<and> c \<le> 0x200A) \<or> c = 0x2028 \<or> c = 0x2029
      \<or> c = 0x202F \<or> c = 0x205F \<or> c = 0x3000 \<or> c = 0xFEFF)"

definition trim :: "jstring \<Rightarrow> jstring" where
  "trim s = rev (dropWhile white_space (rev (dropWhile white_space s)))"

definition startsWith :: "jstring \<Rightarrow> jstring \<Rightarrow> bool" where
  "startsWith s p = (take (length p) s = p)"

subsection \<open>The model layer\<close>

text \<open>
  \<^verbatim>\<open>models.Location.findOne({ where: { id } })\<close>: the first row with that identifier.
\<close>

definition Location_findOne :: "server \<Rightarrow> jstring \<Rightarrow> location option" where
  "Location_findOne srv i = find (\<lambda>l. id_loc l = i) (Locations srv)"

text \<open>
  Modelled from the spec: the defaults of a new Location (\<^verbatim>\<open>approved\<close> false,
  \<^verbatim>\<open>imageURL\<close> null) and its identifier, generated at creation. The model declaration
  is not among the sources, so the generated identifier is an argument.
\<close>

definition Location_create :: "server \<Rightarrow> jstring \<Rightarrow> jstring \<Rightarrow> location \<times> server" where
  "Location_create srv new_id addr =
     (let l = \<lparr>id_loc = new_id, address = addr, imageURL = None, approved = False\<rparr>
      in (l, srv\<lparr>Locations := Locations srv @ [l]\<rparr>))"

text \<open>
  \<^verbatim>\<open>location.save()\<close> writes the changed fields of the instance to the rows with the
  instance's identifier; \<^verbatim>\<open>location.destroy()\<close> deletes them.
\<close>

definition Location_save :: "server \<Rightarrow> jstring \<Rightarrow> (location \<Rightarrow> location) \<Rightarrow> server" where
  "Location_save srv i change =
     srv\<lparr>Locations := map (\<lambda>l. if id_loc l = i then change l else l) (Locations srv)\<rparr>"

definition Location_destroy :: "on_delete \<Rightarrow> server \<Rightarrow> jstring \<Rightarrow> server" where
  "Location_destroy rule srv i =
     srv\<lparr>Locations := filter (\<lambda>l. id_loc l \<noteq> i) (Locations srv),
         Suggestions :=
           (case rule of
              NoAction \<Rightarrow> Suggestions srv
            | Cascade \<Rightarrow> filter (\<lambda>s. LocationId s \<noteq> i) (Suggestions srv))\<rparr>"

fun first_index :: "('a \<Rightarrow> bool) \<Rightarrow> 'a list \<Rightarrow> nat option" where
  "first_index P [] = None"
| "first_index P (x # xs) = (if P x then Some 0 else map_option Suc (first_index P xs))"

text \<open>
  \<^verbatim>\<open>models.Suggestion.findOne({ where: { idea }, include: [{ model: models.Location,
  where: { id } }] })\<close>: an include with a \<^verbatim>\<open>where\<close> is an inner join, so this is the
  first Suggestion with that idea whose Location exists and has that identifier. The
  instance is its row, named by the row's position in the table.
\<close>

definition joins :: "server \<Rightarrow> jstring \<Rightarrow> suggestion \<Rightarrow> bool" where
  "joins srv i s = list_ex (\<lambda>l. id_loc l = LocationId s \<and> id_loc l = i) (Locations srv)"

definition Suggestion_findOne :: "server \<Rightarrow> jstring \<Rightarrow> jstring \<Rightarrow> nat option" where
  "Suggestion_findOne srv idea' i =
     first_index (\<lambda>s. idea s = idea' \<and> joins srv i s) (Suggestions srv)"

text \<open>\<^verbatim>\<open>suggestion.save()\<close> after the instance's \<^verbatim>\<open>votes\<close> have changed.\<close>

definition Suggestion_save :: "server \<Rightarrow> nat \<Rightarrow> int \<Rightarrow> server" where
  "Suggestion_save srv k v =
     srv\<lparr>Suggestions := (Suggestions srv)[k := (Suggestions srv ! k)\<lparr>votes := v\<rparr>]\<rparr>"

text \<open>
  \<^verbatim>\<open>models.Suggestion.findOrCreate({ where: { idea, LocationId }, defaults: { idea,
  LocationId, votes: 0 } })\<close>: the pair of the instance and whether it was created.
\<close>

definition Suggestion_findOrCreate :: "server \<Rightarrow> jstring \<Rightarrow> jstring \<Rightarrow> (suggestion \<times> bool) \<times> server" where
  "Suggestion_findOrCreate srv idea' i =
     (case find (\<lambda>s. idea s = idea' \<and> LocationId s = i) (Suggestions srv) of
        Some s \<Rightarrow> ((s, False), srv)
      | None \<Rightarrow>
          (let s = \<lparr>idea = idea', votes = 0, LocationId = i\<rparr>
           in ((s, True), srv\<lparr>Suggestions := Suggestions srv @ [s]\<rparr>)))"

definition console_error :: "server \<Rightarrow> js_error \<Rightarrow> server" where
  "console_error srv e = srv\<lparr>console := console srv @ [e]\<rparr>"

subsection \<open>Queries\<close>

text \<open>\<^verbatim>\<open>location\<close>: the Location with that identifier and its Suggestions, or null.\<close>

definition location_query :: "server \<Rightarrow> jstring \<Rightarrow> (location \<times> suggestion list) option" where
  "location_query srv i =
     map_option (\<lambda>l. (l, filter (\<lambda>s. LocationId s = id_loc l) (Suggestions srv)))
       (Location_findOne srv i)"

text \<open>
  \<^verbatim>\<open>locations\<close>, \<^verbatim>\<open>approvedLocations\<close> and \<^verbatim>\<open>submittedLocations\<close>: all Locations, or
  those with the given \<^verbatim>\<open>approved\<close> flag, each with its Suggestions.
\<close>

definition with_Suggestions :: "server \<Rightarrow> location \<Rightarrow> location \<times> suggestion list" where
  "with_Suggestions srv l = (l, filter (\<lambda>s. LocationId s = id_loc l) (Suggestions srv))"

definition locations_query :: "server \<Rightarrow> (location \<times> suggestion list) list" where
  "locations_query srv = map (with_Suggestions srv) (Locations srv)"

definition approvedLocations :: "server \<Rightarrow> (location \<times> suggestion list) list" where
  "approvedLocations srv = map (with_Suggestions srv) (filter (\<lambda>l. approved l) (Locations srv))"

definition submittedLocations :: "server \<Rightarrow> (location \<times> suggestion list) list" where
  "submittedLocations srv = map (with_Suggestions srv) (filter (\<lambda>l. \<not> approved l) (Locations srv))"

subsection \<open>Mutations\<close>

text \<open>
  \<^verbatim>\<open>suggestion.votes++\<close> and \<^verbatim>\<open>suggestion.votes--\<close> work on a JavaScript Number, an IEEE
  double: the stored count is read as the nearest double (\<open>to_number\<close>, ties to the even
  significand), one is added or subtracted, and the result is rounded again. Integers
  below \<open>2^53\<close> in magnitude, the safe integers, are doubles, so there the arithmetic is
  exact; from \<open>2^53\<close> on the doubles are \<open>2\<close>, \<open>4\<close>, ... apart. An integer of magnitude
  \<open>2^1024\<close> or more would be read as an infinity; no column of the store holds one, and
  \<open>to_number\<close> does not treat it.
\<close>

fun bit_length :: "nat \<Rightarrow> nat" where
  "bit_length n = (if n = 0 then 0 else Suc (bit_length (n div 2)))"

declare bit_length.simps [simp del]

definition round_to :: "nat \<Rightarrow> nat \<Rightarrow> nat" where
  "round_to q a =
     (let lo = (a div q) * q; r = a mod q
      in if 2 * r < q then lo
         else if q < 2 * r then lo + q
         else if even (a div q) then lo else lo + q)"

definition to_number :: "int \<Rightarrow> int" where
  "to_number x =
     (if \<bar>x\<bar> < 2 ^ 53 then x
      else sgn x * int (round_to (2 ^ (bit_length (nat \<bar>x\<bar>) - 53)) (nat \<bar>x\<bar>)))"

definition increment :: "int \<Rightarrow> int" where
  "increment v = to_number (to_number v + 1)"

definition decrement :: "int \<Rightarrow> int" where
  "decrement v = to_number (to_number v - 1)"

text \<open>
  \<^verbatim>\<open>upVote\<close> and \<^verbatim>\<open>downVote\<close>. When no Suggestion is found, \<^verbatim>\<open>suggestion.votes++\<close>
  on null raises a TypeError inside the transaction; \<^verbatim>\<open>.catch(console.error)\<close> logs it
  and the resolver resolves to undefined (\<open>None\<close>).
\<close>

definition upVote :: "server \<Rightarrow> jstring \<Rightarrow> jstring \<Rightarrow> int option \<times> server" where
  "upVote srv i idea' =
     (case Suggestion_findOne srv idea' i of
        None \<Rightarrow> (None, console_error srv (TypeError ''Cannot read property votes of null''))
      | Some k \<Rightarrow>
          (let v = increment (votes (Suggestions srv ! k))
           in (Some v, Suggestion_save srv k v)))"

definition downVote :: "server \<Rightarrow> jstring \<Rightarrow> jstring \<Rightarrow> int option \<times> server" where
  "downVote srv i idea' =
     (case Suggestion_findOne srv idea' i of
        None \<Rightarrow> (None, console_error srv (TypeError ''Cannot read property votes of null''))
      | Some k \<Rightarrow>
          (let v = decrement (votes (Suggestions srv ! k))
           in (Some v, Suggestion_save srv k v)))"

text \<open>
  \<^verbatim>\<open>mime.extension\<close> of the mime-types package is a table outside the sources; it is
  the parameter \<open>extension\<close>. It yields an extension or \<^verbatim>\<open>false\<close>, which the string
  concatenation of \<^verbatim>\<open>bucket.file(location.id + '.' + mime.extension(mimetype))\<close> turns
  into the text \<^verbatim>\<open>false\<close>.
\<close>

definition object_name :: "(jstring \<Rightarrow> jstring option) \<Rightarrow> jstring \<Rightarrow> jstring \<Rightarrow> jstring" where
  "object_name extension i mt =
     i @ (ascii ''.'') @ (case extension mt of None \<Rightarrow> (ascii ''false'') | Some e \<Rightarrow> e)"

definition image_url :: "jstring \<Rightarrow> jstring" where
  "image_url name = (ascii ''https://storage.cloud.google.com/'') @ gcpBucketName @ (ascii ''/'') @ name"

text \<open>
  \<^verbatim>\<open>addLocation\<close>, up to its \<^verbatim>\<open>return true\<close>. The row is created before the MIME
  type is looked at. The write to the bucket is started and left open: its outcome
  arrives later, as one of the two stream events below. Reading the upload into a
  buffer and reaching the database are taken to succeed.
\<close>

definition addLocation ::
  "(jstring \<Rightarrow> jstring option) \<Rightarrow> server \<Rightarrow> jstring \<Rightarrow> jstring \<Rightarrow> photo \<Rightarrow> (js_error + bool) \<times> server" where
  "addLocation extension srv new_id address' photo' =
     (if trim address' = [] then (Inl (Thrown ''Address can't be empty string''), srv)
      else
        (let (l, srv1) = Location_create srv new_id address'
         in if \<not> startsWith (mimetype photo') (ascii ''image'')
            then (Inl (Thrown ''The uploaded file has to be an image''), srv1)
            else (Inr True,
                  srv1\<lparr>streams := streams srv1 @
                    [\<lparr>instance_id = id_loc l,
                      file_name = object_name extension (id_loc l) (mimetype photo')\<rparr>]\<rparr>)))"

definition remove_nth :: "nat \<Rightarrow> 'a list \<Rightarrow> 'a list" where
  "remove_nth k xs = take k xs @ drop (Suc k) xs"

text \<open>
  The \<^verbatim>\<open>finish\<close> event of the \<open>k\<close>-th open stream: the object is in the bucket, and the
  callback sets \<^verbatim>\<open>imageURL\<close> on its instance and saves it.
\<close>

definition stream_finish :: "server \<Rightarrow> nat \<Rightarrow> server" where
  "stream_finish srv k =
     (if k < length (streams srv) then
        (let u = streams srv ! k;
             srv1 = srv\<lparr>objects := objects srv @ [file_name u],
                        streams := remove_nth k (streams srv)\<rparr>
         in Location_save srv1 (instance_id u) (\<lambda>l. l\<lparr>imageURL := Some (image_url (file_name u))\<rparr>))
      else srv)"

text \<open>
  The \<^verbatim>\<open>error\<close> event of the \<open>k\<close>-th open stream: the callback logs the error and
  calls \<^verbatim>\<open>next(err)\<close>; no \<^verbatim>\<open>next\<close> is in scope, so the call raises a ReferenceError
  that nothing catches. The result is that uncaught error, if the stream exists.
\<close>

definition stream_error :: "server \<Rightarrow> nat \<Rightarrow> js_error \<Rightarrow> js_error option \<times> server" where
  "stream_error srv k err =
     (if k < length (streams srv) then
        (Some (ReferenceError ''next is not defined''),
         console_error (srv\<lparr>streams := remove_nth k (streams srv)\<rparr>) err)
      else (None, srv))"

text \<open>
  \<^verbatim>\<open>addIdea\<close>. When the Location is not found, \<^verbatim>\<open>location.id\<close> on null raises a
  TypeError inside the transaction, which \<^verbatim>\<open>.catch(console.error)\<close> logs; the awaited
  value is then undefined, and destructuring it in
  \<^verbatim>\<open>const [suggestion, created] = await ...\<close> raises a TypeError outside the catch.
\<close>

definition addIdea :: "server \<Rightarrow> jstring \<Rightarrow> jstring \<Rightarrow> (js_error + bool option) \<times> server" where
  "addIdea srv i idea' =
     (if trim i = [] then (Inl (Thrown ''Location ID can't be empty string''), srv)
      else if trim idea' = [] then (Inl (Thrown ''Idea can't be empty string''), srv)
      else
        (case Location_findOne srv i of
           None \<Rightarrow>
             (Inl (TypeError ''undefined is not iterable''),
              console_error srv (TypeError ''Cannot read property id of null''))
         | Some l \<Rightarrow>
             (let ((s, created), srv1) = Suggestion_findOrCreate srv idea' (id_loc l)
              in (Inr (Some created), srv1))))"

text \<open>
  \<^verbatim>\<open>approveLocation\<close> and \<^verbatim>\<open>rejectLocation\<close>; a Location that is not found is a
  TypeError on null, logged, and the resolver resolves to undefined.
\<close>

definition approveLocation :: "server \<Rightarrow> jstring \<Rightarrow> bool option \<times> server" where
  "approveLocation srv i =
     (case Location_findOne srv i of
        None \<Rightarrow> (None, console_error srv (TypeError ''Cannot read property approved of null''))
      | Some l \<Rightarrow>
          (let b = \<not> approved l
           in (Some b, Location_save srv (id_loc l) (\<lambda>r. r\<lparr>approved := b\<rparr>))))"

definition rejectLocation :: "on_delete \<Rightarrow> server \<Rightarrow> jstring \<Rightarrow> bool option \<times> server" where
  "rejectLocation rule srv i =
     (case Location_findOne srv i of
        None \<Rightarrow> (None, console_error srv (TypeError ''Cannot read property destroy of null''))
      | Some l \<Rightarrow> (Some (approved l), Location_destroy rule srv (id_loc l)))"

subsection \<open>Runs of the server\<close>

text \<open>
  What can happen to the server: a mutation arrives (for \<^verbatim>\<open>addLocation\<close> together with
  the identifier the model layer generates), or an open stream finishes or fails.
  A run applies a list of such events in order. The queries change nothing and are
  not events. After an uncaught error the run goes on, which only adds runs.
\<close>

datatype event =
  AddLocation jstring jstring photo
  | AddIdea jstring jstring
  | UpVote jstring jstring
  | DownVote jstring jstring
  | ApproveLocation jstring
  | RejectLocation jstring
  | Finished nat
  | Failed nat js_error

fun step :: "(jstring \<Rightarrow> jstring option) \<Rightarrow> on_delete \<Rightarrow> server \<Rightarrow> event \<Rightarrow> server" where
  "step extension rule srv (AddLocation new_id address' photo') =
     snd (addLocation extension srv new_id address' photo')"
| "step extension rule srv (AddIdea i idea') = snd (addIdea srv i idea')"
| "step extension rule srv (UpVote i idea') = snd (upVote srv i idea')"
| "step extension rule srv (DownVote i idea') = snd (downVote srv i idea')"
| "step extension rule srv (ApproveLocation i) = snd (approveLocation srv i)"
| "step extension rule srv (RejectLocation i) = snd (rejectLocation rule srv i)"
| "step extension rule srv (Finished k) = stream_finish srv k"
| "step extension rule srv (Failed k err) = snd (stream_error srv k err)"

definition run :: "(jstring \<Rightarrow> jstring option) \<Rightarrow> on_delete \<Rightarrow> server \<Rightarrow> event list \<Rightarrow> server" where
  "run extension rule srv evs = foldl (step extension rule) srv evs"

definition empty_server :: server where
  "empty_server = \<lparr>Locations = [], Suggestions = [], objects = [], streams = [], console = []\<rparr>"

subsection \<open>Predicates and example states used by the properties\<close>

text \<open>
  The pair that \<^verbatim>\<open>findOrCreate\<close> keeps unique: the idea and the owning Location.
\<close>

definition pair_key :: "suggestion \<Rightarrow> jstring \<times> jstring" where
  "pair_key s = (idea s, LocationId s)"

text \<open>
  A small store: two Locations, at the first two addresses of \<^verbatim>\<open>createLocations\<close>, the
  first approved and the second not, that both carry the idea of a dog park.
\<close>

definition demo_server :: server where
  "demo_server =
     \<lparr>Locations =
        [\<lparr>id_loc = (ascii ''1''), address = (ascii ''40-12 Broadway''), imageURL = None, approved = True\<rparr>,
         \<lparr>id_loc = (ascii ''2''), address = (ascii ''29-10 Broadway''), imageURL = None, approved = False\<rparr>],
      Suggestions =
        [\<lparr>idea = (ascii ''dog park''), votes = 3, LocationId = (ascii ''1'')\<rparr>,
         \<lparr>idea = (ascii ''dog park''), votes = 5, LocationId = (ascii ''2'')\<rparr>],
      objects = [], streams = [], console = []\<rparr>"

text \<open>\<^verbatim>\<open>Number.isSafeInteger\<close> on an integer: its magnitude is below \<open>2^53\<close>.\<close>

definition safe_integer :: "int \<Rightarrow> bool" where
  "safe_integer v = (\<bar>v\<bar> < 2 ^ 53)"

text \<open>
  The store of \<open>demo_server\<close> after very many votes: the dog park of Location 2 stands
  at \<open>2^53\<close>.
\<close>

definition crowded_server :: server where
  "crowded_server =
     demo_server\<lparr>Suggestions :=
       [\<lparr>idea = ascii ''dog park'', votes = 3, LocationId = ascii ''1''\<rparr>,
        \<lparr>idea = ascii ''dog park'', votes = 9007199254740992, LocationId = ascii ''2''\<rparr>]\<rparr>"

text \<open>How many Suggestions carry a given idea under a given Location identifier.\<close>

definition count_pair :: "server \<Rightarrow> jstring \<Rightarrow> jstring \<Rightarrow> nat" where
  "count_pair srv idea' i =
     length (filter (\<lambda>s. idea s = idea' \<and> LocationId s = i) (Suggestions srv))"

text \<open>
  The uploads are consistent when every \<^verbatim>\<open>imageURL\<close> that is set is the public URL of an
  object that is in the bucket under a name starting with the Location's identifier and a
  dot, and every open stream writes to a file named so after its instance.
\<close>

definition image_stored :: "server \<Rightarrow> bool" where
  "image_stored srv =
     (\<forall>l \<in> set (Locations srv).
        case imageURL l of
          None \<Rightarrow> True
        | Some u \<Rightarrow> (\<exists>f \<in> set (objects srv). startsWith f (id_loc l @ (ascii ''.'')) \<and> u = image_url f))"

definition streams_named :: "server \<Rightarrow> bool" where
  "streams_named srv =
     (\<forall>u \<in> set (streams srv). startsWith (file_name u) (instance_id u @ (ascii ''.'')))"

definition upload_inv :: "server \<Rightarrow> bool" where
  "upload_inv srv = (image_stored srv \<and> streams_named srv)"

text \<open>An uploaded PNG, and an extension table that knows only that type.\<close>

definition png :: photo where
  "png = \<lparr>filename = (ascii ''lot.png''), mimetype = (ascii ''image/png''), content = [0x89, 0x50, 0x4E, 0x47]\<rparr>"

definition png_only :: "jstring \<Rightarrow> jstring option" where
  "png_only m = (if m = (ascii ''image/png'') then Some (ascii ''png'') else None)"

section \<open>Properties\<close>

subsection \<open>Blank strings\<close>

text \<open>
  The guard \<^verbatim>\<open>s.trim() == ""\<close> holds exactly of the strings that consist of white space
  only; a no-break space or a line separator is blank like a space.
\<close>

lemma trim_empty_iff: "trim s = [] \<longleftrightarrow> list_all white_space s"
proof
  assume "trim s = []"
  then have "\<forall>c \<in> set (dropWhile white_space s). white_space c"
    by (simp add: trim_def dropWhile_eq_Nil_conv)
  then have "dropWhile white_space s = []"
    using hd_dropWhile [of white_space s] by (cases "dropWhile white_space s") auto
  then show "list_all white_space s"
    by (simp add: dropWhile_eq_Nil_conv list_all_iff)
next
  assume "list_all white_space s"
  then have d: "dropWhile white_space s = []"
    by (simp add: dropWhile_eq_Nil_conv list_all_iff)
  show "trim s = []"
    unfolding trim_def d by simp
qed

lemma trim_unicode_blank: "trim [0x20, 0xA0, 0x2003, 0x2028, 0xFEFF] = []"
  by (simp add: trim_empty_iff white_space_def)

subsection \<open>Looking up the first matching row\<close>

lemma first_index_SomeD:
  "first_index P xs = Some k \<Longrightarrow> k < length xs \<and> P (xs ! k)"
proof (induction xs arbitrary: k)
  case Nil
  then show ?case by simp
next
  case (Cons x xs)
  then show ?case by (auto split: if_splits)
qed

lemma first_index_None: "first_index P xs = None \<longleftrightarrow> (\<forall>x \<in> set xs. \<not> P x)"
  by (induction xs) auto

lemma first_index_only:
  assumes "j < length xs" and "P (xs ! j)"
    and only: "\<And>k. k < length xs \<Longrightarrow> P (xs ! k) \<Longrightarrow> k = j"
  shows "first_index P xs = Some j"
proof (cases "first_index P xs")
  case None
  with assms(1,2) show ?thesis by (auto simp: first_index_None)
next
  case (Some k)
  then have "k < length xs \<and> P (xs ! k)" by (rule first_index_SomeD)
  then have "k = j" using only by blast
  with Some show ?thesis by simp
qed

lemma first_index_update:
  "k < length xs \<Longrightarrow> P y = P (xs ! k) \<Longrightarrow> first_index P (xs[k := y]) = first_index P xs"
proof (induction xs arbitrary: k)
  case Nil
  then show ?case by simp
next
  case (Cons x xs)
  then show ?case by (cases k) auto
qed

lemma joins_iff: "joins srv i s \<longleftrightarrow> LocationId s = i \<and> Location_findOne srv i \<noteq> None"
  by (auto simp: joins_def Location_findOne_def list_ex_iff find_None_iff)

lemma Suggestion_findOne_SomeD:
  "Suggestion_findOne srv idea' i = Some k \<Longrightarrow>
     k < length (Suggestions srv) \<and> idea (Suggestions srv ! k) = idea' \<and>
     LocationId (Suggestions srv ! k) = i"
  unfolding Suggestion_findOne_def
  by (drule first_index_SomeD) (simp add: joins_iff)

text \<open>
  When the pairs of idea and Location are unique, the join finds every Suggestion of an
  existing Location by its pair.
\<close>

lemma Suggestion_findOne_unique:
  assumes j: "j < length (Suggestions srv)"
    and "idea (Suggestions srv ! j) = idea'"
    and "LocationId (Suggestions srv ! j) = i"
    and "Location_findOne srv i \<noteq> None"
    and d: "distinct (map pair_key (Suggestions srv))"
  shows "Suggestion_findOne srv idea' i = Some j"
  unfolding Suggestion_findOne_def
proof (rule first_index_only)
  show "j < length (Suggestions srv)" by (rule j)
  show "idea (Suggestions srv ! j) = idea' \<and> joins srv i (Suggestions srv ! j)"
    using assms by (simp add: joins_iff)
next
  fix k
  assume k: "k < length (Suggestions srv)"
    and "idea (Suggestions srv ! k) = idea' \<and> joins srv i (Suggestions srv ! k)"
  then have "pair_key (Suggestions srv ! k) = pair_key (Suggestions srv ! j)"
    using assms by (simp add: joins_iff pair_key_def)
  then have "map pair_key (Suggestions srv) ! k = map pair_key (Suggestions srv) ! j"
    using k j by simp
  with d k j show "k = j"
    by (metis nth_eq_iff_index_eq length_map)
qed

lemma Suggestion_findOne_save:
  assumes "k < length (Suggestions srv)"
  shows "Suggestion_findOne (Suggestion_save srv k v) idea' i = Suggestion_findOne srv idea' i"
proof -
  have "joins (Suggestion_save srv k v) i = joins srv i"
    by (simp add: joins_def Suggestion_save_def fun_eq_iff)
  then show ?thesis
    using assms
    by (simp add: Suggestion_findOne_def Suggestion_save_def first_index_update joins_def)
qed

subsection \<open>Votes\<close>

text \<open>The doubles around \<open>2^53\<close>, and the exact arithmetic on safe integers.\<close>

lemma bit_length_2_53: "bit_length 9007199254740992 = 54"
  by (simp add: bit_length.simps)

lemma bit_length_2_53_1: "bit_length 9007199254740993 = 54"
  by (simp add: bit_length.simps)

lemma round_to_2_53: "round_to 2 9007199254740992 = 9007199254740992"
  by (simp add: round_to_def Let_def)

lemma round_to_2_53_1: "round_to 2 9007199254740993 = 9007199254740992"
  by (simp add: round_to_def Let_def)

lemma to_number_2_53: "to_number 9007199254740992 = 9007199254740992"
  by (simp add: to_number_def bit_length_2_53 round_to_2_53)

lemma to_number_2_53_1: "to_number 9007199254740993 = 9007199254740992"
  by (simp add: to_number_def bit_length_2_53_1 round_to_2_53_1)

lemma to_number_neg_2_53: "to_number (- 9007199254740992) = - 9007199254740992"
  by (simp add: to_number_def bit_length_2_53 round_to_2_53)

lemma to_number_safe: "safe_integer v \<Longrightarrow> to_number v = v"
  by (simp add: safe_integer_def to_number_def)

lemma to_number_succ:
  assumes "safe_integer v"
  shows "to_number (v + 1) = v + 1"
proof (cases "v + 1 = 9007199254740992")
  case True
  then show ?thesis by (simp only: to_number_2_53)
next
  case False
  with assms have "\<bar>v + 1\<bar> < 2 ^ 53" by (simp add: safe_integer_def)
  then show ?thesis by (simp add: to_number_def)
qed

lemma to_number_pred:
  assumes "safe_integer v"
  shows "to_number (v - 1) = v - 1"
proof (cases "v - 1 = - 9007199254740992")
  case True
  then show ?thesis by (simp only: to_number_neg_2_53)
next
  case False
  with assms have "\<bar>v - 1\<bar> < 2 ^ 53" by (simp add: safe_integer_def)
  then show ?thesis by (simp add: to_number_def)
qed

lemma increment_safe: "safe_integer v \<Longrightarrow> increment v = v + 1"
  by (simp add: increment_def to_number_safe to_number_succ)

lemma decrement_safe: "safe_integer v \<Longrightarrow> decrement v = v - 1"
  by (simp add: decrement_def to_number_safe to_number_pred)

lemma decrement_increment: "safe_integer v \<Longrightarrow> decrement (increment v) = v"
  by (simp add: increment_safe decrement_def to_number_succ to_number_safe)

lemma increment_2_53: "increment 9007199254740992 = 9007199254740992"
  by (simp add: increment_def to_number_2_53 to_number_2_53_1)

lemma decrement_2_53: "decrement 9007199254740992 = 9007199254740991"
  by (simp add: decrement_def to_number_2_53) (simp add: to_number_def)

text \<open>
  Claim C1, as amended. Take a stored Suggestion (the row at position \<open>j\<close>) that matches
  the idea and the identifier of a Location that is still stored, whose votes are a safe
  integer, in a store where the pairs of idea and Location are unique. Then \<^verbatim>\<open>upVote\<close>
  resolves to its votes plus one and \<^verbatim>\<open>downVote\<close> to its votes minus one, and in both
  cases the new store is the old one with exactly that count written to that row.
\<close>

theorem vote_changes_by_one:
  assumes "j < length (Suggestions srv)"
    and "idea (Suggestions srv ! j) = idea'"
    and "LocationId (Suggestions srv ! j) = i"
    and "Location_findOne srv i \<noteq> None"
    and "distinct (map pair_key (Suggestions srv))"
    and safe: "safe_integer (votes (Suggestions srv ! j))"
  shows "upVote srv i idea' =
           (Some (votes (Suggestions srv ! j) + 1),
            srv\<lparr>Suggestions := (Suggestions srv)
               [j := (Suggestions srv ! j)\<lparr>votes := votes (Suggestions srv ! j) + 1\<rparr>]\<rparr>)
       \<and> downVote srv i idea' =
           (Some (votes (Suggestions srv ! j) - 1),
            srv\<lparr>Suggestions := (Suggestions srv)
               [j := (Suggestions srv ! j)\<lparr>votes := votes (Suggestions srv ! j) - 1\<rparr>]\<rparr>)"
  using Suggestion_findOne_unique [OF assms(1-5)] safe
  by (simp add: upVote_def downVote_def Suggestion_save_def Let_def increment_safe
        decrement_safe)

theorem vote_changes_by_one_witness:
  "distinct (map pair_key (Suggestions demo_server))
   \<and> Location_findOne demo_server (ascii ''2'') \<noteq> None
   \<and> safe_integer (votes (Suggestions demo_server ! 1))
   \<and> fst (upVote demo_server (ascii ''2'') (ascii ''dog park'')) = Some 6
   \<and> map votes (Suggestions (snd (upVote demo_server (ascii ''2'') (ascii ''dog park'')))) = [3, 6]
   \<and> fst (downVote demo_server (ascii ''2'') (ascii ''dog park'')) = Some 4
   \<and> map votes (Suggestions (snd (downVote demo_server (ascii ''2'') (ascii ''dog park'')))) = [3, 4]"
  using vote_changes_by_one [of 1 demo_server "ascii ''dog park''" "ascii ''2''"]
  by (simp add: ascii_def demo_server_def pair_key_def Location_findOne_def safe_integer_def)

text \<open>
  The claim as it stands speaks of every stored Suggestion that matches the pair. At
  \<open>2^53\<close> votes the double arithmetic of \<^verbatim>\<open>votes++\<close> adds nothing: \<^verbatim>\<open>upVote\<close> resolves to
  \<open>2^53\<close> and stores it. And once Location 2 is rejected under a storage rule that leaves
  its Suggestions in place, the Suggestion still matches the pair, but the join finds no
  Location: \<^verbatim>\<open>upVote\<close> resolves to undefined and the votes stay as they are.
\<close>

theorem vote_changes_by_one_counterexample:
  "upVote crowded_server (ascii ''2'') (ascii ''dog park'') = (Some 9007199254740992, crowded_server)
   \<and> Suggestions (snd (rejectLocation NoAction demo_server (ascii ''2''))) = Suggestions demo_server
   \<and> fst (upVote (snd (rejectLocation NoAction demo_server (ascii ''2''))) (ascii ''2'') (ascii ''dog park''))
       = None
   \<and> Suggestions (snd (upVote (snd (rejectLocation NoAction demo_server (ascii ''2'')))
         (ascii ''2'') (ascii ''dog park''))) = Suggestions demo_server"
proof -
  have found: "Suggestion_findOne crowded_server (ascii ''dog park'') (ascii ''2'') = Some 1"
    by (simp add: ascii_def Suggestion_findOne_def joins_def crowded_server_def demo_server_def)
  have v: "votes (Suggestions crowded_server ! 1) = 9007199254740992"
    by (simp add: crowded_server_def)
  have same: "Suggestion_save crowded_server 1 9007199254740992 = crowded_server"
    by (simp add: Suggestion_save_def crowded_server_def)
  have big: "upVote crowded_server (ascii ''2'') (ascii ''dog park'')
      = (Some 9007199254740992, crowded_server)"
    using found by (simp add: upVote_def Let_def v increment_2_53 same del: One_nat_def)
  have orphan: "snd (rejectLocation NoAction demo_server (ascii ''2''))
      = demo_server\<lparr>Locations :=
          [\<lparr>id_loc = ascii ''1'', address = ascii ''40-12 Broadway'', imageURL = None,
            approved = True\<rparr>]\<rparr>"
    by (simp add: ascii_def rejectLocation_def Location_destroy_def Location_findOne_def
          demo_server_def)
  have none: "Suggestion_findOne (snd (rejectLocation NoAction demo_server (ascii ''2'')))
      (ascii ''dog park'') (ascii ''2'') = None"
    unfolding orphan
    by (simp add: ascii_def Suggestion_findOne_def joins_def demo_server_def)
  have "Suggestions (snd (rejectLocation NoAction demo_server (ascii ''2''))) = Suggestions demo_server"
    by (simp add: orphan)
  with big none show ?thesis
    by (simp add: upVote_def console_error_def)
qed

text \<open>
  Claim C3. Two Suggestions (the rows at positions \<open>a\<close> and \<open>b\<close>) carry the same idea and
  belong to distinct Locations \<open>X\<close> and \<open>Y\<close>. A vote, up or down, issued with the
  identifier \<open>X\<close> leaves the row under \<open>Y\<close> as it was, votes included.
\<close>

theorem vote_scoped_by_location:
  assumes "a < length (Suggestions srv)" and "b < length (Suggestions srv)"
    and "idea (Suggestions srv ! a) = idea'" and "idea (Suggestions srv ! b) = idea'"
    and "LocationId (Suggestions srv ! a) = X" and "LocationId (Suggestions srv ! b) = Y"
    and "X \<noteq> Y"
  shows "Suggestions (snd (upVote srv X idea')) ! b = Suggestions srv ! b
       \<and> Suggestions (snd (downVote srv X idea')) ! b = Suggestions srv ! b"
proof -
  have "k \<noteq> b" if "Suggestion_findOne srv idea' X = Some k" for k
    using Suggestion_findOne_SomeD [OF that] assms by auto
  then show ?thesis
    by (auto simp: upVote_def downVote_def Suggestion_save_def console_error_def Let_def
             split: option.splits)
qed

theorem vote_scoped_by_location_witness:
  "fst (upVote demo_server (ascii ''1'') (ascii ''dog park'')) = Some 4
   \<and> votes (Suggestions (snd (upVote demo_server (ascii ''1'') (ascii ''dog park''))) ! 1) = 5
   \<and> fst (downVote demo_server (ascii ''1'') (ascii ''dog park'')) = Some 2
   \<and> votes (Suggestions (snd (downVote demo_server (ascii ''1'') (ascii ''dog park''))) ! 1) = 5"
proof -
  have "fst (upVote demo_server (ascii ''1'') (ascii ''dog park'')) = Some 4"
    and "fst (downVote demo_server (ascii ''1'') (ascii ''dog park'')) = Some 2"
    by (simp_all add: ascii_def upVote_def downVote_def Suggestion_findOne_def joins_def
          Suggestion_save_def demo_server_def increment_def decrement_def to_number_def)
  then show ?thesis
    using vote_scoped_by_location [of 0 demo_server 1 "ascii ''dog park''" "ascii ''1''" "ascii ''2''"]
    by (simp add: ascii_def demo_server_def)
qed

text \<open>
  Claim C10, as amended. For the Suggestion that the pair of Location identifier and idea
  identifies (the row \<open>k\<close> that the lookup finds), with votes that are a safe integer,
  \<^verbatim>\<open>upVote\<close> resolves to its votes plus one, and \<^verbatim>\<open>downVote\<close> called next resolves to
  the original count and leaves the store exactly as it was before the two calls.
\<close>

theorem upVote_downVote_roundtrip:
  assumes "Suggestion_findOne srv idea' i = Some k"
    and safe: "safe_integer (votes (Suggestions srv ! k))"
  shows "upVote srv i idea' =
           (Some (votes (Suggestions srv ! k) + 1),
            Suggestion_save srv k (votes (Suggestions srv ! k) + 1))
       \<and> downVote (snd (upVote srv i idea')) i idea' = (Some (votes (Suggestions srv ! k)), srv)"
proof -
  let ?v = "votes (Suggestions srv ! k)"
  from assms have k: "k < length (Suggestions srv)"
    by (simp add: Suggestion_findOne_SomeD)
  have up: "upVote srv i idea' = (Some (?v + 1), Suggestion_save srv k (?v + 1))"
    using assms by (simp add: upVote_def Let_def increment_safe)
  have again: "Suggestion_findOne (Suggestion_save srv k (?v + 1)) idea' i = Some k"
    using assms k by (simp add: Suggestion_findOne_save)
  have undo: "Suggestion_save (Suggestion_save srv k (?v + 1)) k ?v = srv"
    using k by (simp add: Suggestion_save_def)
  have "decrement (?v + 1) = ?v"
    using decrement_increment [OF safe] by (simp add: increment_safe safe)
  then have "downVote (Suggestion_save srv k (?v + 1)) i idea' = (Some ?v, srv)"
    using again undo k by (simp add: downVote_def Let_def Suggestion_save_def)
  with up show ?thesis by simp
qed

theorem upVote_downVote_roundtrip_witness:
  "Suggestion_findOne demo_server (ascii ''dog park'') (ascii ''2'') = Some 1
   \<and> safe_integer (votes (Suggestions demo_server ! 1))
   \<and> fst (upVote demo_server (ascii ''2'') (ascii ''dog park'')) = Some 6
   \<and> downVote (snd (upVote demo_server (ascii ''2'') (ascii ''dog park''))) (ascii ''2'') (ascii ''dog park'')
       = (Some 5, demo_server)"
proof -
  have found: "Suggestion_findOne demo_server (ascii ''dog park'') (ascii ''2'') = Some 1"
    by (simp add: ascii_def Suggestion_findOne_def joins_def demo_server_def)
  have v: "votes (Suggestions demo_server ! 1) = 5"
    by (simp add: demo_server_def)
  have safe: "safe_integer (votes (Suggestions demo_server ! 1))"
    by (simp add: demo_server_def safe_integer_def)
  from found v safe show ?thesis
    using upVote_downVote_roundtrip [OF found safe] by auto
qed

text \<open>
  The claim as it stands speaks of every existing Suggestion. At \<open>2^53\<close> votes \<^verbatim>\<open>upVote\<close>
  resolves to \<open>2^53\<close> and leaves the store as it is, and \<^verbatim>\<open>downVote\<close> called next
  resolves to \<open>2^53 - 1\<close>, one less than the count before the two calls.
\<close>

theorem upVote_downVote_roundtrip_counterexample:
  "Suggestion_findOne crowded_server (ascii ''dog park'') (ascii ''2'') = Some 1
   \<and> votes (Suggestions crowded_server ! 1) = 9007199254740992
   \<and> fst (upVote crowded_server (ascii ''2'') (ascii ''dog park'')) = Some 9007199254740992
   \<and> fst (downVote (snd (upVote crowded_server (ascii ''2'') (ascii ''dog park'')))
         (ascii ''2'') (ascii ''dog park'')) = Some 9007199254740991
   \<and> map votes (Suggestions (snd (downVote (snd (upVote crowded_server (ascii ''2'') (ascii ''dog park'')))
         (ascii ''2'') (ascii ''dog park'')))) = [3, 9007199254740991]"
proof -
  have found: "Suggestion_findOne crowded_server (ascii ''dog park'') (ascii ''2'') = Some 1"
    by (simp add: ascii_def Suggestion_findOne_def joins_def crowded_server_def demo_server_def)
  have v: "votes (Suggestions crowded_server ! 1) = 9007199254740992"
    by (simp add: crowded_server_def)
  have same: "Suggestion_save crowded_server 1 9007199254740992 = crowded_server"
    by (simp add: Suggestion_save_def crowded_server_def)
  have up: "upVote crowded_server (ascii ''2'') (ascii ''dog park'')
      = (Some 9007199254740992, crowded_server)"
    using found by (simp add: upVote_def Let_def v increment_2_53 same del: One_nat_def)
  have down: "downVote crowded_server (ascii ''2'') (ascii ''dog park'')
      = (Some 9007199254740991, Suggestion_save crowded_server 1 9007199254740991)"
    using found by (simp add: downVote_def Let_def v decrement_2_53 del: One_nat_def)
  have "map votes (Suggestions (Suggestion_save crowded_server 1 9007199254740991))
      = [3, 9007199254740991]"
    by (simp add: Suggestion_save_def crowded_server_def)
  with found v up down show ?thesis by simp
qed

subsection \<open>Looking up and saving Locations\<close>

lemma Location_findOne_id: "Location_findOne srv i = Some l \<Longrightarrow> id_loc l = i"
  by (auto simp: Location_findOne_def find_Some_iff)

lemma Location_findOne_None: "Location_findOne srv i = None \<longleftrightarrow> i \<notin> id_loc ` set (Locations srv)"
  by (auto simp: Location_findOne_def find_None_iff)

lemma find_map_change:
  assumes "\<And>x. id_loc (change x) = id_loc x"
  shows "find (\<lambda>l. id_loc l = i) (map (\<lambda>l. if id_loc l = j then change l else l) xs)
       = map_option (\<lambda>l. if id_loc l = j then change l else l) (find (\<lambda>l. id_loc l = i) xs)"
  using assms by (induction xs) auto

lemma Location_findOne_save:
  assumes "\<And>x. id_loc (change x) = id_loc x"
  shows "Location_findOne (Location_save srv j change) i
       = map_option (\<lambda>l. if id_loc l = j then change l else l) (Location_findOne srv i)"
  using assms by (simp add: Location_findOne_def Location_save_def find_map_change)

lemma Location_save_ids:
  assumes "\<And>x. id_loc (change x) = id_loc x"
  shows "id_loc ` set (Locations (Location_save srv j change)) = id_loc ` set (Locations srv)"
proof -
  have same: "map id_loc (map (\<lambda>l. if id_loc l = j then change l else l) xs) = map id_loc xs" for xs
    by (induction xs) (auto simp: assms)
  have "Locations (Location_save srv j change)
      = map (\<lambda>l. if id_loc l = j then change l else l) (Locations srv)"
    by (simp add: Location_save_def)
  then have "set (map id_loc (Locations (Location_save srv j change)))
           = set (map id_loc (Locations srv))"
    by (simp only: same)
  then show ?thesis
    by (simp only: set_map)
qed



subsection \<open>Approval and rejection\<close>

text \<open>
  Claim C6. \<^verbatim>\<open>approveLocation\<close> is a toggle. For an existing Location (the row \<open>l\<close>
  that the lookup by identifier finds) one call resolves to the negation of its
  \<^verbatim>\<open>approved\<close> flag and stores it; a second call resolves to the original value and
  the lookup finds the original row again. With \<^verbatim>\<open>approved\<close> false this is false, true,
  false.
\<close>

theorem approveLocation_toggles:
  assumes "Location_findOne srv i = Some l"
  shows "fst (approveLocation srv i) = Some (\<not> approved l)
       \<and> Location_findOne (snd (approveLocation srv i)) i = Some (l\<lparr>approved := \<not> approved l\<rparr>)
       \<and> fst (approveLocation (snd (approveLocation srv i)) i) = Some (approved l)
       \<and> Location_findOne (snd (approveLocation (snd (approveLocation srv i)) i)) i = Some l"
proof -
  have i: "id_loc l = i" using assms by (rule Location_findOne_id)
  let ?srv1 = "Location_save srv i (\<lambda>r. r\<lparr>approved := \<not> approved l\<rparr>)"
  have one: "approveLocation srv i = (Some (\<not> approved l), ?srv1)"
    using assms i by (simp add: approveLocation_def Let_def)
  have found: "Location_findOne ?srv1 i = Some (l\<lparr>approved := \<not> approved l\<rparr>)"
    using assms i by (simp add: Location_findOne_save)
  let ?srv2 = "Location_save ?srv1 i (\<lambda>r. r\<lparr>approved := approved l\<rparr>)"
  have two: "approveLocation ?srv1 i = (Some (approved l), ?srv2)"
    using found i by (simp add: approveLocation_def Let_def)
  have "Location_findOne ?srv2 i
      = map_option (\<lambda>x. if id_loc x = i then x\<lparr>approved := approved l\<rparr> else x)
          (Location_findOne ?srv1 i)"
    by (rule Location_findOne_save) simp
  then have "Location_findOne ?srv2 i = Some l"
    using i by (simp only: found) simp
  with one found two show ?thesis by simp
qed

theorem approveLocation_toggles_witness:
  "Location_findOne demo_server (ascii ''2'')
     = Some \<lparr>id_loc = (ascii ''2''), address = (ascii ''29-10 Broadway''), imageURL = None, approved = False\<rparr>
   \<and> fst (approveLocation demo_server (ascii ''2'')) = Some True
   \<and> map approved (Locations (snd (approveLocation demo_server (ascii ''2'')))) = [True, True]
   \<and> fst (approveLocation (snd (approveLocation demo_server (ascii ''2''))) (ascii ''2'')) = Some False
   \<and> map approved (Locations (snd (approveLocation (snd (approveLocation demo_server (ascii ''2''))) (ascii ''2''))))
       = [True, False]"
proof -
  have found: "Location_findOne demo_server (ascii ''2'')
     = Some \<lparr>id_loc = (ascii ''2''), address = (ascii ''29-10 Broadway''), imageURL = None, approved = False\<rparr>"
    by (simp add: ascii_def Location_findOne_def demo_server_def)
  have "map approved (Locations (snd (approveLocation demo_server (ascii ''2'')))) = [True, True]"
    and "map approved (Locations (snd (approveLocation (snd (approveLocation demo_server (ascii ''2''))) (ascii ''2''))))
       = [True, False]"
    by (simp_all add: ascii_def approveLocation_def Location_findOne_def Location_save_def demo_server_def)
  with found show ?thesis
    using approveLocation_toggles [OF found] by simp
qed

lemma step_keeps_absent:
  assumes "i \<notin> id_loc ` set (Locations srv)"
    and "\<And>a p. e \<noteq> AddLocation i a p"
  shows "i \<notin> id_loc ` set (Locations (step extension rule srv e))"
proof (cases e)
  case (AddLocation n a p)
  with assms show ?thesis
    by (auto simp: addLocation_def Location_create_def Let_def)
next
  case (AddIdea j t)
  with assms show ?thesis
    by (auto simp: addIdea_def Suggestion_findOrCreate_def console_error_def Let_def
        split: option.splits)
next
  case (UpVote j t)
  with assms show ?thesis
    by (auto simp: upVote_def Suggestion_save_def console_error_def Let_def split: option.splits)
next
  case (DownVote j t)
  with assms show ?thesis
    by (auto simp: downVote_def Suggestion_save_def console_error_def Let_def split: option.splits)
next
  case (ApproveLocation j)
  with assms show ?thesis
    by (auto simp: approveLocation_def Location_save_ids console_error_def Let_def
        split: option.splits)
next
  case (RejectLocation j)
  with assms show ?thesis
    by (auto simp: rejectLocation_def Location_destroy_def console_error_def split: option.splits)
next
  case (Finished k)
  with assms show ?thesis
    by (auto simp: stream_finish_def Location_save_ids Let_def)
next
  case (Failed k err)
  with assms show ?thesis
    by (auto simp: stream_error_def console_error_def)
qed

lemma run_keeps_absent:
  assumes "i \<notin> id_loc ` set (Locations srv)"
    and "\<And>e a p. e \<in> set evs \<Longrightarrow> e \<noteq> AddLocation i a p"
  shows "i \<notin> id_loc ` set (Locations (run extension rule srv evs))"
  using assms unfolding run_def
proof (induction evs arbitrary: srv)
  case Nil
  then show ?case by simp
next
  case (Cons e evs)
  have "i \<notin> id_loc ` set (Locations (step extension rule srv e))"
    using Cons.prems by (intro step_keeps_absent) auto
  then show ?case
    using Cons.prems(2) by (simp add: Cons.IH)
qed

text \<open>
  Claim C7. For an existing Location, \<^verbatim>\<open>rejectLocation\<close> resolves to the
  \<^verbatim>\<open>approved\<close> value the row had, deletes the rows with that identifier, and the
  \<^verbatim>\<open>location\<close> query for the identifier finds nothing: right after the call, and
  after any further events, as long as the model layer does not hand out the identifier
  again.
\<close>

theorem rejectLocation_destroys:
  assumes "Location_findOne srv i = Some l"
  shows "fst (rejectLocation rule srv i) = Some (approved l)
       \<and> Locations (snd (rejectLocation rule srv i)) = filter (\<lambda>x. id_loc x \<noteq> i) (Locations srv)
       \<and> location_query (snd (rejectLocation rule srv i)) i = None
       \<and> (\<forall>evs. (\<forall>e \<in> set evs. \<forall>a p. e \<noteq> AddLocation i a p) \<longrightarrow>
            location_query (run extension rule' (snd (rejectLocation rule srv i)) evs) i = None)"
proof -
  have i: "id_loc l = i" using assms by (rule Location_findOne_id)
  have r: "rejectLocation rule srv i = (Some (approved l), Location_destroy rule srv i)"
    using assms i by (simp add: rejectLocation_def)
  have gone: "i \<notin> id_loc ` set (Locations (Location_destroy rule srv i))"
    by (auto simp: Location_destroy_def)
  have "location_query (run extension rule' (Location_destroy rule srv i) evs) i = None"
    if "\<forall>e \<in> set evs. \<forall>a p. e \<noteq> AddLocation i a p" for evs
    using run_keeps_absent [OF gone, of evs extension rule'] that
    by (simp add: location_query_def Location_findOne_None)
  moreover have "location_query (Location_destroy rule srv i) i = None"
    using gone by (simp add: location_query_def Location_findOne_None)
  ultimately show ?thesis
    using r by (simp add: Location_destroy_def)
qed

theorem rejectLocation_destroys_witness:
  "fst (rejectLocation Cascade demo_server (ascii ''2'')) = Some False
   \<and> map id_loc (Locations (snd (rejectLocation Cascade demo_server (ascii ''2'')))) = [(ascii ''1'')]
   \<and> location_query (snd (rejectLocation Cascade demo_server (ascii ''2''))) (ascii ''2'') = None
   \<and> location_query
        (run (\<lambda>m. None) Cascade (snd (rejectLocation Cascade demo_server (ascii ''2'')))
           [ApproveLocation (ascii ''2''), AddIdea (ascii ''2'') (ascii ''dog park''),
            AddLocation (ascii ''3'') (ascii ''29-34 38th Street'')
              \<lparr>filename = (ascii ''a.png''), mimetype = (ascii ''image/png''), content = []\<rparr>,
            Finished 0]) (ascii ''2'') = None"
proof -
  have found: "Location_findOne demo_server (ascii ''2'')
     = Some \<lparr>id_loc = (ascii ''2''), address = (ascii ''29-10 Broadway''), imageURL = None, approved = False\<rparr>"
    by (simp add: ascii_def Location_findOne_def demo_server_def)
  show ?thesis
    using rejectLocation_destroys [OF found, of Cascade "\<lambda>m. None" Cascade]
    by (simp add: ascii_def demo_server_def)
qed

subsection \<open>Proposing ideas\<close>

lemma find_pair_None:
  "find (\<lambda>s. idea s = idea' \<and> LocationId s = i) xs = None \<longleftrightarrow> (idea', i) \<notin> pair_key ` set xs"
  by (auto simp: find_None_iff pair_key_def image_iff)

lemma Suggestion_findOrCreate_eq:
  "Suggestion_findOrCreate srv idea' i =
     (if (idea', i) \<in> pair_key ` set (Suggestions srv)
      then ((the (find (\<lambda>s. idea s = idea' \<and> LocationId s = i) (Suggestions srv)), False), srv)
      else ((\<lparr>idea = idea', votes = 0, LocationId = i\<rparr>, True),
            srv\<lparr>Suggestions := Suggestions srv @ [\<lparr>idea = idea', votes = 0, LocationId = i\<rparr>]\<rparr>))"
  using find_pair_None [of idea' i "Suggestions srv"]
  by (auto simp: Suggestion_findOrCreate_def Let_def split: option.splits)

lemma addIdea_eq:
  assumes "trim i \<noteq> []" and "trim idea' \<noteq> []" and "Location_findOne srv i = Some l"
  shows "addIdea srv i idea' =
     (if (idea', i) \<in> pair_key ` set (Suggestions srv) then (Inr (Some False), srv)
      else (Inr (Some True),
            srv\<lparr>Suggestions := Suggestions srv @ [\<lparr>idea = idea', votes = 0, LocationId = i\<rparr>]\<rparr>))"
proof -
  have "id_loc l = i"
    using assms(3) by (auto simp: Location_findOne_def find_Some_iff)
  then show ?thesis
    using assms by (simp add: addIdea_def Suggestion_findOrCreate_eq)
qed

text \<open>
  Claim C5, as amended. For the identifier of an existing Location and an idea, both not
  empty or white space only, \<^verbatim>\<open>addIdea\<close> is find-or-create on the pair: it resolves to
  false and changes nothing when a Suggestion with that idea exists under the Location,
  and otherwise resolves to true and appends one Suggestion with zero votes. A second
  identical call resolves to false and changes nothing, the number of Suggestions with
  the pair is at least one and never grows beyond what it was, and unique pairs stay
  unique.
\<close>

theorem addIdea_find_or_create:
  assumes "trim i \<noteq> []" and "trim idea' \<noteq> []" and "Location_findOne srv i = Some l"
  shows "addIdea srv i idea' =
           (if 0 < count_pair srv idea' i then (Inr (Some False), srv)
            else (Inr (Some True),
                  srv\<lparr>Suggestions := Suggestions srv @
                    [\<lparr>idea = idea', votes = 0, LocationId = i\<rparr>]\<rparr>))
       \<and> addIdea (snd (addIdea srv i idea')) i idea' = (Inr (Some False), snd (addIdea srv i idea'))
       \<and> count_pair (snd (addIdea srv i idea')) idea' i = max 1 (count_pair srv idea' i)
       \<and> (distinct (map pair_key (Suggestions srv)) \<longrightarrow>
            distinct (map pair_key (Suggestions (snd (addIdea srv i idea')))))"
proof -
  let ?new = "\<lparr>idea = idea', votes = 0, LocationId = i\<rparr>"
  let ?srv1 = "srv\<lparr>Suggestions := Suggestions srv @ [?new]\<rparr>"
  have c: "0 < count_pair srv idea' i \<longleftrightarrow> (idea', i) \<in> pair_key ` set (Suggestions srv)"
    by (auto simp: count_pair_def pair_key_def image_iff filter_empty_conv)
  have first: "addIdea srv i idea' =
      (if 0 < count_pair srv idea' i then (Inr (Some False), srv) else (Inr (Some True), ?srv1))"
    using addIdea_eq [OF assms] c by simp
  have l1: "Location_findOne ?srv1 i = Some l"
    using assms(3) by (simp add: Location_findOne_def)
  have second: "addIdea ?srv1 i idea' = (Inr (Some False), ?srv1)"
    using addIdea_eq [OF assms(1,2) l1] by (simp add: pair_key_def)
  have again: "addIdea srv i idea' = (Inr (Some False), srv)" if "0 < count_pair srv idea' i"
    using first that by simp
  have two: "addIdea (snd (addIdea srv i idea')) i idea' = (Inr (Some False), snd (addIdea srv i idea'))"
    using first second again by (cases "0 < count_pair srv idea' i") simp_all
  have cnt: "count_pair (snd (addIdea srv i idea')) idea' i = max 1 (count_pair srv idea' i)"
  proof (cases "0 < count_pair srv idea' i")
    case True
    with first show ?thesis by (simp add: max_def)
  next
    case False
    with first show ?thesis by (simp add: count_pair_def)
  qed
  have dist: "distinct (map pair_key (Suggestions (snd (addIdea srv i idea'))))"
    if "distinct (map pair_key (Suggestions srv))"
    using first that c by (cases "0 < count_pair srv idea' i") (simp_all add: pair_key_def)
  from first two cnt dist show ?thesis by blast
qed

theorem addIdea_find_or_create_witness:
  "trim (ascii ''1'') \<noteq> [] \<and> trim (ascii ''playground'') \<noteq> []
   \<and> Location_findOne demo_server (ascii ''1'')
       = Some \<lparr>id_loc = (ascii ''1''), address = (ascii ''40-12 Broadway''), imageURL = None, approved = True\<rparr>
   \<and> addIdea demo_server (ascii ''1'') (ascii ''playground'')
       = (Inr (Some True),
          demo_server\<lparr>Suggestions := Suggestions demo_server @
            [\<lparr>idea = (ascii ''playground''), votes = 0, LocationId = (ascii ''1'')\<rparr>]\<rparr>)
   \<and> fst (addIdea (snd (addIdea demo_server (ascii ''1'') (ascii ''playground''))) (ascii ''1'') (ascii ''playground''))
       = Inr (Some False)
   \<and> count_pair (snd (addIdea demo_server (ascii ''1'') (ascii ''playground''))) (ascii ''playground'') (ascii ''1'') = 1
   \<and> distinct (map pair_key (Suggestions (snd (addIdea demo_server (ascii ''1'') (ascii ''playground'')))))"
proof -
  have a: "trim (ascii ''1'') \<noteq> []" and b: "trim (ascii ''playground'') \<noteq> []"
    by (simp_all add: ascii_def trim_def white_space_def)
  have found: "Location_findOne demo_server (ascii ''1'')
       = Some \<lparr>id_loc = (ascii ''1''), address = (ascii ''40-12 Broadway''), imageURL = None, approved = True\<rparr>"
    by (simp add: ascii_def Location_findOne_def demo_server_def)
  have c: "count_pair demo_server (ascii ''playground'') (ascii ''1'') = 0"
    by (simp add: ascii_def count_pair_def demo_server_def)
  have d: "distinct (map pair_key (Suggestions demo_server))"
    by (simp add: ascii_def pair_key_def demo_server_def)
  show ?thesis
    using a b found addIdea_find_or_create [OF a b found] by (auto simp: c d)
qed

text \<open>
  The claim as it stands asks only for a non-empty idea. An idea of one space is not
  empty, and both calls throw the validation error instead of resolving to true or false.
\<close>

theorem addIdea_blank_idea_counterexample:
  "addIdea demo_server (ascii ''1'') (ascii '' '') = (Inl (Thrown ''Idea can't be empty string''), demo_server)
   \<and> fst (addIdea (snd (addIdea demo_server (ascii ''1'') (ascii '' ''))) (ascii ''1'') (ascii '' ''))
       = Inl (Thrown ''Idea can't be empty string'')"
  by (simp add: ascii_def addIdea_def trim_def white_space_def)

text \<open>
  A call for an identifier that matches no Location, with arguments that pass the two
  checks: the first TypeError is logged, the second one is thrown, and nothing else
  changes.
\<close>

lemma addIdea_not_found:
  assumes "trim i \<noteq> []" and "trim idea' \<noteq> []" and "Location_findOne srv i = None"
  shows "addIdea srv i idea' =
           (Inl (TypeError ''undefined is not iterable''),
            srv\<lparr>console := console srv @ [TypeError ''Cannot read property id of null'']\<rparr>)"
  using assms by (simp add: addIdea_def console_error_def)

text \<open>
  Claim C9, at a Location identifier that matches no Location. The TypeError of the
  failed lookup is caught and logged and no Suggestion is created, but the resolver does
  not resolve to undefined: destructuring the undefined result throws a second
  TypeError, which reaches the caller.
\<close>

theorem addIdea_unknown_location_throws:
  "addIdea demo_server (ascii ''7'') (ascii ''dog park'')
   = (Inl (TypeError ''undefined is not iterable''),
      demo_server\<lparr>console := [TypeError ''Cannot read property id of null'']\<rparr>)"
  by (simp add: ascii_def addIdea_def trim_def white_space_def Location_findOne_def console_error_def
        demo_server_def)

text \<open>In every run of the server the pairs of idea and Location stay unique.\<close>

lemma pair_key_save:
  "map pair_key (Suggestions (Suggestion_save srv k v)) = map pair_key (Suggestions srv)"
proof (cases "k < length (Suggestions srv)")
  case True
  then show ?thesis
    by (simp add: Suggestion_save_def map_update pair_key_def list_update_same_conv)
next
  case False
  then show ?thesis
    by (simp add: Suggestion_save_def list_update_beyond)
qed

lemma pairs_distinct_addIdea:
  assumes "distinct (map pair_key (Suggestions srv))"
  shows "distinct (map pair_key (Suggestions (snd (addIdea srv i idea'))))"
  using assms
  by (auto simp: addIdea_def Suggestion_findOrCreate_eq console_error_def pair_key_def
      split: option.splits)

lemma pairs_distinct_step:
  assumes "distinct (map pair_key (Suggestions srv))"
  shows "distinct (map pair_key (Suggestions (step extension rule srv e)))"
proof (cases e)
  case (AddLocation n a p)
  with assms show ?thesis
    by (auto simp: addLocation_def Location_create_def Let_def)
next
  case (AddIdea j t)
  with assms show ?thesis by (simp add: pairs_distinct_addIdea)
next
  case (UpVote j t)
  with assms show ?thesis
    by (auto simp: upVote_def pair_key_save console_error_def Let_def split: option.splits)
next
  case (DownVote j t)
  with assms show ?thesis
    by (auto simp: downVote_def pair_key_save console_error_def Let_def split: option.splits)
next
  case (ApproveLocation j)
  with assms show ?thesis
    by (auto simp: approveLocation_def Location_save_def console_error_def Let_def
        split: option.splits)
next
  case (RejectLocation j)
  with assms show ?thesis
    by (auto simp: rejectLocation_def Location_destroy_def console_error_def distinct_map_filter
        split: option.splits on_delete.splits)
next
  case (Finished k)
  with assms show ?thesis
    by (auto simp: stream_finish_def Location_save_def Let_def)
next
  case (Failed k err)
  with assms show ?thesis
    by (auto simp: stream_error_def console_error_def)
qed

lemma pairs_distinct_run:
  "distinct (map pair_key (Suggestions srv)) \<Longrightarrow>
   distinct (map pair_key (Suggestions (run extension rule srv evs)))"
  unfolding run_def by (induction evs arbitrary: srv) (simp_all add: pairs_distinct_step)

subsection \<open>Submitting a Location\<close>

text \<open>
  Claim C8, as amended. For an address that is not empty or white space only and a photo
  whose declared MIME type does not start with \<^verbatim>\<open>image\<close>, \<^verbatim>\<open>addLocation\<close> throws the
  validation error of the MIME check, and the store it leaves behind holds the new row,
  not approved and without an image URL; nothing else has changed.
\<close>

theorem addLocation_orphan_row:
  assumes "trim address' \<noteq> []" and "\<not> startsWith (mimetype photo') (ascii ''image'')"
  shows "addLocation extension srv new_id address' photo' =
     (Inl (Thrown ''The uploaded file has to be an image''),
      srv\<lparr>Locations := Locations srv @
        [\<lparr>id_loc = new_id, address = address', imageURL = None, approved = False\<rparr>]\<rparr>)"
  using assms by (simp add: addLocation_def Location_create_def Let_def)

theorem addLocation_orphan_row_witness:
  "trim (ascii ''32-13 Broadway'') \<noteq> []
   \<and> \<not> startsWith (ascii ''text/plain'') (ascii ''image'')
   \<and> addLocation (\<lambda>m. None) empty_server (ascii ''1'') (ascii ''32-13 Broadway'')
       \<lparr>filename = (ascii ''notes.txt''), mimetype = (ascii ''text/plain''), content = [0x68, 0x69]\<rparr>
     = (Inl (Thrown ''The uploaded file has to be an image''),
        empty_server\<lparr>Locations :=
          [\<lparr>id_loc = (ascii ''1''), address = (ascii ''32-13 Broadway''), imageURL = None, approved = False\<rparr>]\<rparr>)"
proof -
  have a: "trim (ascii ''32-13 Broadway'') \<noteq> []"
    by (simp add: ascii_def trim_def white_space_def)
  have m: "\<not> startsWith (mimetype \<lparr>filename = (ascii ''notes.txt''), mimetype = (ascii ''text/plain''), content = [0x68, 0x69]\<rparr>) (ascii ''image'')"
    by (simp add: startsWith_def ascii_def)
  show ?thesis
    using a m addLocation_orphan_row [OF a m, of "\<lambda>m. None" empty_server "(ascii ''1'')"]
    by (simp add: empty_server_def)
qed

text \<open>
  The claim as it stands asks only for a non-empty address. An address of one space is
  not empty, and the call fails on the address check, before any row is created.
\<close>

theorem addLocation_blank_address_counterexample:
  "addLocation (\<lambda>m. None) empty_server (ascii ''1'') (ascii '' '')
     \<lparr>filename = (ascii ''notes.txt''), mimetype = (ascii ''text/plain''), content = [0x68, 0x69]\<rparr>
   = (Inl (Thrown ''Address can't be empty string''), empty_server)"
  by (simp add: ascii_def addLocation_def trim_def white_space_def)

subsection \<open>The uploaded image\<close>

lemma upload_inv_frame:
  assumes "upload_inv srv"
    and "Locations srv' = Locations srv"
    and "set (objects srv) \<subseteq> set (objects srv')"
    and "set (streams srv') \<subseteq> set (streams srv)"
  shows "upload_inv srv'"
  using assms unfolding upload_inv_def image_stored_def streams_named_def
  by (auto split: option.splits) blast+

lemma set_remove_nth: "set (remove_nth k xs) \<subseteq> set xs"
  unfolding remove_nth_def by (auto dest: in_set_takeD in_set_dropD)

lemma startsWith_object_name: "startsWith (object_name extension i mt) (i @ (ascii ''.''))"
  by (simp add: startsWith_def object_name_def)

lemma upload_inv_addLocation:
  assumes "upload_inv srv"
  shows "upload_inv (snd (addLocation extension srv new_id address' photo'))"
  using assms startsWith_object_name [of extension new_id "mimetype photo'"]
  unfolding upload_inv_def image_stored_def streams_named_def
  by (auto simp: addLocation_def Location_create_def Let_def split: option.splits)

lemma upload_inv_addIdea: "upload_inv srv \<Longrightarrow> upload_inv (snd (addIdea srv i idea'))"
  by (erule upload_inv_frame)
    (auto simp: addIdea_def Suggestion_findOrCreate_def console_error_def Let_def
      split: option.splits)

lemma upload_inv_upVote: "upload_inv srv \<Longrightarrow> upload_inv (snd (upVote srv i idea'))"
  by (erule upload_inv_frame)
    (auto simp: upVote_def Suggestion_save_def console_error_def Let_def split: option.splits)

lemma upload_inv_downVote: "upload_inv srv \<Longrightarrow> upload_inv (snd (downVote srv i idea'))"
  by (erule upload_inv_frame)
    (auto simp: downVote_def Suggestion_save_def console_error_def Let_def split: option.splits)

lemma upload_inv_stream_error: "upload_inv srv \<Longrightarrow> upload_inv (snd (stream_error srv k err))"
  using set_remove_nth [of k "streams srv"]
  by (erule_tac upload_inv_frame) (auto simp: stream_error_def console_error_def)

lemma upload_inv_approveLocation:
  assumes "upload_inv srv"
  shows "upload_inv (snd (approveLocation srv i))"
  using assms unfolding upload_inv_def image_stored_def streams_named_def
  by (auto simp: approveLocation_def Location_save_def console_error_def Let_def
      split: option.splits)

lemma upload_inv_rejectLocation:
  assumes "upload_inv srv"
  shows "upload_inv (snd (rejectLocation rule srv i))"
  using assms unfolding upload_inv_def image_stored_def streams_named_def
  by (auto simp: rejectLocation_def Location_destroy_def console_error_def
      split: option.splits)

lemma upload_inv_stream_finish:
  assumes "upload_inv srv"
  shows "upload_inv (stream_finish srv k)"
proof (cases "k < length (streams srv)")
  case False
  with assms show ?thesis by (simp add: stream_finish_def)
next
  case True
  let ?u = "streams srv ! k"
  from True have "?u \<in> set (streams srv)" by simp
  with assms have named: "startsWith (file_name ?u) (instance_id ?u @ (ascii ''.''))"
    by (simp add: upload_inv_def streams_named_def)
  have "streams_named (stream_finish srv k)"
    using assms True set_remove_nth [of k "streams srv"]
    by (auto simp: upload_inv_def streams_named_def stream_finish_def Location_save_def Let_def)
  moreover have "image_stored (stream_finish srv k)"
    using assms True named
    unfolding upload_inv_def image_stored_def
    by (auto simp: stream_finish_def Location_save_def Let_def split: option.splits)
  ultimately show ?thesis by (simp add: upload_inv_def)
qed

lemma upload_inv_step: "upload_inv srv \<Longrightarrow> upload_inv (step extension rule srv e)"
  by (cases e)
    (simp_all add: upload_inv_addLocation upload_inv_addIdea upload_inv_upVote
      upload_inv_downVote upload_inv_approveLocation upload_inv_rejectLocation
      upload_inv_stream_finish upload_inv_stream_error)

lemma upload_inv_run: "upload_inv srv \<Longrightarrow> upload_inv (run extension rule srv evs)"
  unfolding run_def by (induction evs arbitrary: srv) (simp_all add: upload_inv_step)

lemma upload_inv_empty: "upload_inv empty_server"
  by (simp add: upload_inv_def image_stored_def streams_named_def empty_server_def)

text \<open>
  Claim C4. Start from a store whose uploads are consistent (the empty store is). After
  any run, every Location whose \<^verbatim>\<open>imageURL\<close> is set has its object in the bucket: the
  only step that sets the field is the save in the \<^verbatim>\<open>finish\<close> callback, which runs
  once the write has succeeded. When a write fails, the callback logs the error and no
  row changes; in particular a Location whose write fails right after \<^verbatim>\<open>addLocation\<close>
  is still in the table, with no image URL.
\<close>

theorem imageURL_only_after_upload:
  assumes "upload_inv srv"
  shows "image_stored (run extension rule srv evs)
       \<and> Locations (snd (stream_error srv k err)) = Locations srv
       \<and> (k < length (streams srv) \<longrightarrow>
            console (snd (stream_error srv k err)) = console srv @ [err])
       \<and> (trim address' \<noteq> [] \<and> startsWith (mimetype photo') (ascii ''image'') \<longrightarrow>
            (let srv1 = snd (addLocation extension srv new_id address' photo');
                 srv2 = snd (stream_error srv1 (length (streams srv)) err)
             in Locations srv2 = Locations srv @
                  [\<lparr>id_loc = new_id, address = address', imageURL = None, approved = False\<rparr>]
                \<and> console srv2 = console srv @ [err]
                \<and> objects srv2 = objects srv))"
proof -
  have "image_stored (run extension rule srv evs)"
    using upload_inv_run [OF assms] by (simp add: upload_inv_def)
  moreover have "Locations (snd (stream_error srv k err)) = Locations srv"
    by (simp add: stream_error_def console_error_def)
  moreover have "console (snd (stream_error srv k err)) = console srv @ [err]"
    if "k < length (streams srv)"
    using that by (simp add: stream_error_def console_error_def)
  moreover have "(let srv1 = snd (addLocation extension srv new_id address' photo');
                 srv2 = snd (stream_error srv1 (length (streams srv)) err)
             in Locations srv2 = Locations srv @
                  [\<lparr>id_loc = new_id, address = address', imageURL = None, approved = False\<rparr>]
                \<and> console srv2 = console srv @ [err]
                \<and> objects srv2 = objects srv)"
    if "trim address' \<noteq> []" and "startsWith (mimetype photo') (ascii ''image'')"
    using that
    by (simp add: addLocation_def Location_create_def stream_error_def console_error_def Let_def)
  ultimately show ?thesis by blast
qed

theorem imageURL_only_after_upload_witness:
  "upload_inv empty_server
   \<and> Locations (run png_only Cascade empty_server
        [AddLocation (ascii ''1'') (ascii ''32-13 Broadway'') png, Finished 0])
       = [\<lparr>id_loc = (ascii ''1''), address = (ascii ''32-13 Broadway''),
           imageURL = Some (ascii ''https://storage.cloud.google.com/astoriatech-wishlist-images/1.png''),
           approved = False\<rparr>]
   \<and> objects (run png_only Cascade empty_server
        [AddLocation (ascii ''1'') (ascii ''32-13 Broadway'') png, Finished 0]) = [(ascii ''1.png'')]
   \<and> image_stored (run png_only Cascade empty_server
        [AddLocation (ascii ''1'') (ascii ''32-13 Broadway'') png, Finished 0])
   \<and> Locations (snd (stream_error (snd (addLocation png_only empty_server (ascii ''1'') (ascii ''32-13 Broadway'') png))
          0 (StreamError ''socket hang up'')))
       = [\<lparr>id_loc = (ascii ''1''), address = (ascii ''32-13 Broadway''), imageURL = None, approved = False\<rparr>]
   \<and> console (snd (stream_error (snd (addLocation png_only empty_server (ascii ''1'') (ascii ''32-13 Broadway'') png))
          0 (StreamError ''socket hang up'')))
       = [StreamError ''socket hang up'']"
proof -
  have a: "trim (ascii ''32-13 Broadway'') \<noteq> []"
    by (simp add: ascii_def trim_def white_space_def)
  have m: "startsWith (mimetype png) (ascii ''image'')"
    by (simp add: ascii_def startsWith_def png_def)
  have r: "run png_only Cascade empty_server [AddLocation (ascii ''1'') (ascii ''32-13 Broadway'') png, Finished 0]
      = \<lparr>Locations = [\<lparr>id_loc = (ascii ''1''), address = (ascii ''32-13 Broadway''),
           imageURL = Some (ascii ''https://storage.cloud.google.com/astoriatech-wishlist-images/1.png''),
           approved = False\<rparr>],
         Suggestions = [], objects = [(ascii ''1.png'')], streams = [], console = []\<rparr>"
    using a m
    by (simp add: ascii_def run_def addLocation_def Location_create_def stream_finish_def Location_save_def
          object_name_def image_url_def gcpBucketName_def remove_nth_def png_only_def png_def
          empty_server_def Let_def)
  have e: "Locations empty_server = []" "streams empty_server = []" "console empty_server = []"
    by (simp_all add: empty_server_def)
  show ?thesis
    using a m upload_inv_empty
      imageURL_only_after_upload [OF upload_inv_empty, of png_only Cascade
        "[AddLocation (ascii ''1'') (ascii ''32-13 Broadway'') png, Finished 0]" 0 "StreamError ''socket hang up''"
        "(ascii ''32-13 Broadway'')" png "(ascii ''1'')"]
    by (simp add: r e Let_def)
qed

end
